theory Spec2Isabelle
  imports Main
begin

section \<open>Values of the host language\<close>

text \<open>
  The library is generic: a payload is any JavaScript value, and a payload may itself be
  a \<open>Result\<close> or an \<open>Option\<close> (this is what \<open>unwrapDeep\<close> inspects
  with \<open>instanceof\<close>). The two classes are therefore declared together with the
  values. Both classes have only \<open>readonly\<close> fields and a private constructor, so an
  instance is the tuple of its fields.

  An \<open>Error\<close> instance is an object with an identity (the \<open>nat\<close>) and a message;
  two error objects are the same object iff they are equal here. Numbers are kept
  integral: the library never computes with a payload.
\<close>

datatype rtype = Type_ok | Type_error

datatype otype = Type_some | Type_none

datatype jsval =
    JUndefined
  | JNull
  | JBoolean bool
  | JNumber int
  | JString string
  | JObject nat
  | JError nat string
  | VResult result
  | VOption option_obj
and result =
    New_Result (result_type: rtype) (result_value: jsval) (result_error: jsval)
and option_obj =
    New_Option (option_type: otype) (option_value: jsval)

text \<open>
  What a \<open>throw\<close> statement raises: \<open>throw this.error\<close> raises a value that already
  exists; \<open>throw new Error(msg)\<close> raises an object allocated by the statement itself,
  which is therefore no value that existed before the call.
\<close>

datatype exn = Throw jsval | Throw_new_Error string

text \<open>\<open>const Never = undefined as never\<close>\<close>

definition Never :: jsval where
  "Never = JUndefined"

text \<open>
  A parameter declared \<open>p = d\<close> receives \<open>d\<close> when the argument is missing or is
  \<open>undefined\<close>; a missing argument is passed as \<open>JUndefined\<close>.
\<close>

definition default_param :: "jsval \<Rightarrow> jsval \<Rightarrow> jsval" where
  "default_param d arg = (if arg = JUndefined then d else arg)"

section \<open>Result\<close>

text \<open>\<open>private constructor(type, value = Never, error = Never)\<close>\<close>

definition Result_constructor :: "rtype \<Rightarrow> jsval \<Rightarrow> jsval \<Rightarrow> result" where
  "Result_constructor type value error =
     New_Result type (default_param Never value) (default_param Never error)"

definition Result_ok :: "jsval \<Rightarrow> result" where
  "Result_ok value = Result_constructor Type_ok value JUndefined"

definition Result_err :: "jsval \<Rightarrow> result" where
  "Result_err error = Result_constructor Type_error Never error"

definition Result_isOk :: "result \<Rightarrow> bool" where
  "Result_isOk this = (result_type this = Type_ok)"

definition Result_isErr :: "result \<Rightarrow> bool" where
  "Result_isErr this = (result_type this = Type_error)"

definition Result_unwrap :: "result \<Rightarrow> exn + jsval" where
  "Result_unwrap this =
     (if Result_isOk this then Inr (result_value this)
      else Inl (Throw (result_error this)))"

definition Result_unwrapOr :: "jsval \<Rightarrow> result \<Rightarrow> jsval" where
  "Result_unwrapOr fallbackValue this =
     (if Result_isOk this then result_value this else fallbackValue)"

definition Result_unwrapErr :: "result \<Rightarrow> exn + jsval" where
  "Result_unwrapErr this =
     (if Result_isErr this then Inr (result_error this)
      else Inl (Throw_new_Error ''Cannot unwrapErr an Ok result''))"

section \<open>Option\<close>

text \<open>\<open>private constructor(type, value = Never)\<close>\<close>

definition Option_constructor :: "otype \<Rightarrow> jsval \<Rightarrow> option_obj" where
  "Option_constructor type value = New_Option type (default_param Never value)"

definition Option_some :: "jsval \<Rightarrow> option_obj" where
  "Option_some value = Option_constructor Type_some value"

definition Option_none :: option_obj where
  "Option_none = Option_constructor Type_none JUndefined"

definition Option_from :: "jsval \<Rightarrow> option_obj" where
  "Option_from maybe =
     (if maybe = JUndefined \<or> maybe = JNull then Option_none else Option_some maybe)"

definition Option_isSome :: "option_obj \<Rightarrow> bool" where
  "Option_isSome this = (option_type this = Type_some)"

definition Option_isNone :: "option_obj \<Rightarrow> bool" where
  "Option_isNone this = (option_type this = Type_none)"

definition Option_unwrap :: "option_obj \<Rightarrow> exn + jsval" where
  "Option_unwrap this =
     (if Option_isSome this then Inr (option_value this)
      else Inl (Throw_new_Error ''Cannot unwrap a None option''))"

definition Option_unwrapOr :: "jsval \<Rightarrow> option_obj \<Rightarrow> jsval" where
  "Option_unwrapOr fallbackValue this =
     (if Option_isSome this then option_value this else fallbackValue)"

section \<open>Deep unwrapping\<close>

text \<open>
  \<open>Result.unwrapDeep\<close> and \<open>Option.unwrapDeep\<close> call each other. The first
  argument counts the calls that may still be made: with none left the call has not
  returned (\<open>None\<close>); otherwise the body runs as written, an exception of
  \<open>unwrap\<close> leaving the method at once.
\<close>

fun Result_unwrapDeep :: "nat \<Rightarrow> result \<Rightarrow> (exn + jsval) option"
  and Option_unwrapDeep :: "nat \<Rightarrow> option_obj \<Rightarrow> (exn + jsval) option" where
  "Result_unwrapDeep 0 this = None"
| "Result_unwrapDeep (Suc n) this =
     (case Result_unwrap this of
        Inl x \<Rightarrow> Some (Inl x)
      | Inr value \<Rightarrow>
          (case value of
             VResult r \<Rightarrow> Result_unwrapDeep n r
           | VOption opt \<Rightarrow> Option_unwrapDeep n opt
           | _ \<Rightarrow> Some (Inr value)))"
| "Option_unwrapDeep 0 this = None"
| "Option_unwrapDeep (Suc n) this =
     (case Option_unwrap this of
        Inl x \<Rightarrow> Some (Inl x)
      | Inr value \<Rightarrow>
          (case value of
             VResult r \<Rightarrow> Result_unwrapDeep n r
           | VOption opt \<Rightarrow> Option_unwrapDeep n opt
           | _ \<Rightarrow> Some (Inr value)))"

section \<open>Transformations\<close>

text \<open>
  The argument \<open>fn\<close> is code of the caller: it may have effects and it may throw. A
  callback takes the caller's state and returns its outcome with the new state, so that
  whether \<open>fn\<close> was invoked is visible.
\<close>

type_synonym 's callback = "jsval \<Rightarrow> 's \<Rightarrow> (exn + jsval) \<times> 's"

definition Result_map :: "'s callback \<Rightarrow> result \<Rightarrow> 's \<Rightarrow> (exn + result) \<times> 's" where
  "Result_map fn this s =
     (if Result_isOk this then
        (case fn (result_value this) s of
           (Inl x, s') \<Rightarrow> (Inl x, s')
         | (Inr u, s') \<Rightarrow> (Inr (Result_ok u), s'))
      else (Inr (Result_err (result_error this)), s))"

definition Result_mapErr :: "'s callback \<Rightarrow> result \<Rightarrow> 's \<Rightarrow> (exn + result) \<times> 's" where
  "Result_mapErr fn this s =
     (if Result_isErr this then
        (case fn (result_error this) s of
           (Inl x, s') \<Rightarrow> (Inl x, s')
         | (Inr f, s') \<Rightarrow> (Inr (Result_err f), s'))
      else (Inr (Result_ok (result_value this)), s))"

definition Option_map :: "'s callback \<Rightarrow> option_obj \<Rightarrow> 's \<Rightarrow> (exn + option_obj) \<times> 's" where
  "Option_map fn this s =
     (if Option_isSome this then
        (case fn (option_value this) s of
           (Inl x, s') \<Rightarrow> (Inl x, s')
         | (Inr u, s') \<Rightarrow> (Inr (Option_some u), s'))
      else (Inr Option_none, s))"

section \<open>Promises\<close>

text \<open>
  \<open>Result.fromPromise\<close> is \<open>promise.then(Result.ok).catch(Result.err)\<close>. A promise
  is described by how it ends: it stays pending for ever, it fulfills with a value, or it
  rejects with a reason (any value). \<open>then\<close> with one handler runs the handler on the
  value of a fulfilled promise and passes a rejection on; \<open>catch\<close> runs its handler on
  the reason of a rejected promise and passes a fulfilment on. In both, the promise that
  is returned fulfills with what the handler returns. The two handlers used here,
  \<open>Result.ok\<close> and \<open>Result.err\<close>, contain no \<open>throw\<close> and return an object without
  a \<open>then\<close> method, so these are the only cases that arise.
\<close>

datatype 'a promise = Pending | Fulfilled 'a | Rejected jsval

definition Promise_then :: "('a \<Rightarrow> 'b) \<Rightarrow> 'a promise \<Rightarrow> 'b promise" where
  "Promise_then onfulfilled p =
     (case p of
        Pending \<Rightarrow> Pending
      | Fulfilled v \<Rightarrow> Fulfilled (onfulfilled v)
      | Rejected reason \<Rightarrow> Rejected reason)"

definition Promise_catch :: "(jsval \<Rightarrow> 'a) \<Rightarrow> 'a promise \<Rightarrow> 'a promise" where
  "Promise_catch onrejected p =
     (case p of
        Pending \<Rightarrow> Pending
      | Fulfilled v \<Rightarrow> Fulfilled v
      | Rejected reason \<Rightarrow> Fulfilled (onrejected reason))"

definition Result_fromPromise :: "jsval promise \<Rightarrow> result promise" where
  "Result_fromPromise promise = Promise_catch Result_err (Promise_then Result_ok promise)"

section \<open>Auxiliary notions for the statements\<close>

text \<open>\<open>value instanceof Result || value instanceof Option\<close>\<close>

definition is_container :: "jsval \<Rightarrow> bool" where
  "is_container v = (case v of VResult r \<Rightarrow> True | VOption opt \<Rightarrow> True | _ \<Rightarrow> False)"

text \<open>
  The number of containers that deep unwrapping goes through: the receiver, then the
  payload of each Ok or Some container as long as that payload is a container again.
\<close>

primrec layers :: "jsval \<Rightarrow> nat"
  and layers_result :: "result \<Rightarrow> nat"
  and layers_option :: "option_obj \<Rightarrow> nat" where
  "layers JUndefined = 0"
| "layers JNull = 0"
| "layers (JBoolean b) = 0"
| "layers (JNumber i) = 0"
| "layers (JString str) = 0"
| "layers (JObject a) = 0"
| "layers (JError a msg) = 0"
| "layers (VResult r) = layers_result r"
| "layers (VOption opt) = layers_option opt"
| "layers_result (New_Result t v e) = (case t of Type_ok \<Rightarrow> Suc (layers v) | Type_error \<Rightarrow> 1)"
| "layers_option (New_Option t v) = (case t of Type_some \<Rightarrow> Suc (layers v) | Type_none \<Rightarrow> 1)"

text \<open>The callback \<open>x => x\<close>, and a callback that counts its invocations.\<close>

definition fn_identity :: "'s callback" where
  "fn_identity x s = (Inr x, s)"

definition fn_counting :: "nat callback" where
  "fn_counting x s = (Inr (JString ''mapped''), Suc s)"

text \<open>
  The containers on which deep unwrapping calls \<open>unwrap\<close>, in the order of the calls:
  the receiver, then the payload of each Ok or Some container as long as that payload
  is a container again. \<open>unwrap_of\<close> is the \<open>unwrap\<close> of such a container.
\<close>

primrec nested :: "jsval \<Rightarrow> (result + option_obj) list"
  and nested_result :: "result \<Rightarrow> (result + option_obj) list"
  and nested_option :: "option_obj \<Rightarrow> (result + option_obj) list" where
  "nested JUndefined = []"
| "nested JNull = []"
| "nested (JBoolean b) = []"
| "nested (JNumber i) = []"
| "nested (JString str) = []"
| "nested (JObject a) = []"
| "nested (JError a msg) = []"
| "nested (VResult r) = nested_result r"
| "nested (VOption opt) = nested_option opt"
| "nested_result (New_Result t v e) =
     Inl (New_Result t v e) # (case t of Type_ok \<Rightarrow> nested v | Type_error \<Rightarrow> [])"
| "nested_option (New_Option t v) =
     Inr (New_Option t v) # (case t of Type_some \<Rightarrow> nested v | Type_none \<Rightarrow> [])"

definition unwrap_of :: "result + option_obj \<Rightarrow> exn + jsval" where
  "unwrap_of c = (case c of Inl r \<Rightarrow> Result_unwrap r | Inr opt \<Rightarrow> Option_unwrap opt)"

text \<open>The callback \<open>x => { throw x }\<close>, which also counts its invocations.\<close>

definition fn_throwing :: "nat callback" where
  "fn_throwing x s = (Inl (Throw x), Suc s)"

section \<open>Basic facts\<close>

lemma default_param_Never: "default_param Never arg = arg"
  by (simp add: default_param_def Never_def)

lemma Result_ok_fields: "Result_ok v = New_Result Type_ok v JUndefined"
  by (simp add: Result_ok_def Result_constructor_def default_param_def Never_def)

lemma Result_err_fields: "Result_err e = New_Result Type_error JUndefined e"
  by (simp add: Result_err_def Result_constructor_def default_param_def Never_def)

lemma Option_some_fields: "Option_some v = New_Option Type_some v"
  by (simp add: Option_some_def Option_constructor_def default_param_def Never_def)

lemma Option_none_fields: "Option_none = New_Option Type_none JUndefined"
  by (simp add: Option_none_def Option_constructor_def default_param_def Never_def)

lemma Result_isOk_iff: "Result_isOk r \<longleftrightarrow> \<not> Result_isErr r"
  by (cases "result_type r") (simp_all add: Result_isOk_def Result_isErr_def)

lemma Option_isSome_iff: "Option_isSome opt \<longleftrightarrow> \<not> Option_isNone opt"
  by (cases "option_type opt") (simp_all add: Option_isSome_def Option_isNone_def)

section \<open>Facts about deep unwrapping\<close>

lemma is_container_simps:
  "is_container (VResult r)" "is_container (VOption opt)"
  "\<not> is_container JUndefined" "\<not> is_container JNull" "\<not> is_container (JBoolean b)"
  "\<not> is_container (JNumber i)" "\<not> is_container (JString str)"
  "\<not> is_container (JObject a)" "\<not> is_container (JError a msg)"
  by (simp_all add: is_container_def)

lemma Result_unwrapDeep_Suc_plain:
  "Result_unwrap r = Inr v \<Longrightarrow> \<not> is_container v \<Longrightarrow> Result_unwrapDeep (Suc n) r = Some (Inr v)"
  by (cases v) (simp_all add: is_container_def)

lemma Option_unwrapDeep_Suc_plain:
  "Option_unwrap opt = Inr v \<Longrightarrow> \<not> is_container v \<Longrightarrow> Option_unwrapDeep (Suc n) opt = Some (Inr v)"
  by (cases v) (simp_all add: is_container_def)

lemma Result_unwrapDeep_Suc_raise:
  "Result_unwrap r = Inl x \<Longrightarrow> Result_unwrapDeep (Suc n) r = Some (Inl x)"
  by simp

lemma Option_unwrapDeep_Suc_raise:
  "Option_unwrap opt = Inl x \<Longrightarrow> Option_unwrapDeep (Suc n) opt = Some (Inl x)"
  by simp

lemma layers_result_eq:
  "layers_result r = (case Result_unwrap r of Inl x \<Rightarrow> 1 | Inr v \<Rightarrow> Suc (layers v))"
  by (cases r; cases "result_type r") (simp_all add: Result_unwrap_def Result_isOk_def)

lemma layers_option_eq:
  "layers_option opt = (case Option_unwrap opt of Inl x \<Rightarrow> 1 | Inr v \<Rightarrow> Suc (layers v))"
  by (cases opt; cases "option_type opt") (simp_all add: Option_unwrap_def Option_isSome_def)

lemma unwrapDeep_returns_iff:
  "(Result_unwrapDeep n r \<noteq> None \<longleftrightarrow> layers_result r \<le> n) \<and>
   (Option_unwrapDeep n opt \<noteq> None \<longleftrightarrow> layers_option opt \<le> n)"
proof (induction n arbitrary: r opt)
  case 0
  show ?case by (simp add: layers_result_eq layers_option_eq split: sum.splits)
next
  case (Suc n)
  have res: "(Result_unwrapDeep (Suc n) r \<noteq> None) = (layers_result r \<le> Suc n)"
  proof (cases "Result_unwrap r")
    case (Inl x)
    then show ?thesis by (simp add: layers_result_eq)
  next
    case (Inr v)
    then show ?thesis using Suc.IH by (cases v) (simp_all add: layers_result_eq)
  qed
  have opt: "(Option_unwrapDeep (Suc n) opt \<noteq> None) = (layers_option opt \<le> Suc n)"
  proof (cases "Option_unwrap opt")
    case (Inl x)
    then show ?thesis by (simp add: layers_option_eq)
  next
    case (Inr v)
    then show ?thesis using Suc.IH by (cases v) (simp_all add: layers_option_eq)
  qed
  from res opt show ?case by simp
qed

lemma unwrapDeep_returns_plain:
  "(Result_unwrapDeep n r = Some (Inr v) \<longrightarrow> \<not> is_container v) \<and>
   (Option_unwrapDeep n opt = Some (Inr v) \<longrightarrow> \<not> is_container v)"
proof (induction n arbitrary: r opt)
  case 0
  show ?case by simp
next
  case (Suc n)
  have res: "Result_unwrapDeep (Suc n) r = Some (Inr v) \<longrightarrow> \<not> is_container v"
  proof (cases "Result_unwrap r")
    case (Inl x)
    then show ?thesis by simp
  next
    case (Inr w)
    then show ?thesis using Suc.IH by (cases w) (auto simp: is_container_def)
  qed
  have opt: "Option_unwrapDeep (Suc n) opt = Some (Inr v) \<longrightarrow> \<not> is_container v"
  proof (cases "Option_unwrap opt")
    case (Inl x)
    then show ?thesis by simp
  next
    case (Inr w)
    then show ?thesis using Suc.IH by (cases w) (auto simp: is_container_def)
  qed
  from res opt show ?case by simp
qed

lemma unwrapDeep_fuel_mono:
  "(Result_unwrapDeep n r = Some y \<longrightarrow> Result_unwrapDeep (n + k) r = Some y) \<and>
   (Option_unwrapDeep n opt = Some y \<longrightarrow> Option_unwrapDeep (n + k) opt = Some y)"
proof (induction n arbitrary: r opt)
  case 0
  show ?case by simp
next
  case (Suc n)
  have res: "Result_unwrapDeep (Suc n) r = Some y \<longrightarrow> Result_unwrapDeep (Suc n + k) r = Some y"
  proof (cases "Result_unwrap r")
    case (Inl x)
    then show ?thesis by auto
  next
    case (Inr w)
    then show ?thesis using Suc.IH by (cases w) auto
  qed
  have opt: "Option_unwrapDeep (Suc n) opt = Some y \<longrightarrow> Option_unwrapDeep (Suc n + k) opt = Some y"
  proof (cases "Option_unwrap opt")
    case (Inl x)
    then show ?thesis by auto
  next
    case (Inr w)
    then show ?thesis using Suc.IH by (cases w) auto
  qed
  from res opt show ?case by simp
qed

lemma nested_result_eq:
  "nested_result r = Inl r # (case Result_unwrap r of Inl x \<Rightarrow> [] | Inr v \<Rightarrow> nested v)"
  by (cases r; cases "result_type r") (simp_all add: Result_unwrap_def Result_isOk_def)

lemma nested_option_eq:
  "nested_option opt = Inr opt # (case Option_unwrap opt of Inl x \<Rightarrow> [] | Inr v \<Rightarrow> nested v)"
  by (cases opt; cases "option_type opt") (simp_all add: Option_unwrap_def Option_isSome_def)

lemma nested_plain: "\<not> is_container v \<Longrightarrow> nested v = []"
  by (cases v) (simp_all add: is_container_def)

lemma length_nested:
  "length (nested v) = layers v"
  "length (nested_result r) = layers_result r"
  "length (nested_option opt) = layers_option opt"
  by (induction v and r and opt) (simp_all split: rtype.splits otype.splits)

lemma Result_unwrapDeep_Suc_Result:
  "Result_unwrap r = Inr (VResult r') \<Longrightarrow> Result_unwrapDeep (Suc n) r = Result_unwrapDeep n r'"
  by simp

lemma Result_unwrapDeep_Suc_Option:
  "Result_unwrap r = Inr (VOption opt') \<Longrightarrow> Result_unwrapDeep (Suc n) r = Option_unwrapDeep n opt'"
  by simp

lemma Option_unwrapDeep_Suc_Result:
  "Option_unwrap opt = Inr (VResult r') \<Longrightarrow> Option_unwrapDeep (Suc n) opt = Result_unwrapDeep n r'"
  by simp

lemma Option_unwrapDeep_Suc_Option:
  "Option_unwrap opt = Inr (VOption opt') \<Longrightarrow>
   Option_unwrapDeep (Suc n) opt = Option_unwrapDeep n opt'"
  by simp

lemma unwrapDeep_raises_iff:
  "(Result_unwrapDeep n r = Some (Inl x) \<longleftrightarrow>
      layers_result r \<le> n \<and> (\<exists>c \<in> set (nested_result r). unwrap_of c = Inl x)) \<and>
   (Option_unwrapDeep n opt = Some (Inl x) \<longleftrightarrow>
      layers_option opt \<le> n \<and> (\<exists>c \<in> set (nested_option opt). unwrap_of c = Inl x))"
proof (induction n arbitrary: r opt)
  case 0
  show ?case by (simp add: layers_result_eq layers_option_eq split: sum.splits)
next
  case (Suc n)
  have res: "Result_unwrapDeep (Suc n) r = Some (Inl x) \<longleftrightarrow>
      layers_result r \<le> Suc n \<and> (\<exists>c \<in> set (nested_result r). unwrap_of c = Inl x)"
  proof (cases "Result_unwrap r")
    case (Inl x')
    then show ?thesis
      by (auto simp: layers_result_eq nested_result_eq unwrap_of_def)
  next
    case (Inr v)
    then show ?thesis using Suc.IH
      by (cases v) (simp_all add: layers_result_eq nested_result_eq [of r] unwrap_of_def)
  qed
  have opt: "Option_unwrapDeep (Suc n) opt = Some (Inl x) \<longleftrightarrow>
      layers_option opt \<le> Suc n \<and> (\<exists>c \<in> set (nested_option opt). unwrap_of c = Inl x)"
  proof (cases "Option_unwrap opt")
    case (Inl x')
    then show ?thesis
      by (auto simp: layers_option_eq nested_option_eq unwrap_of_def)
  next
    case (Inr v)
    then show ?thesis using Suc.IH
      by (cases v) (simp_all add: layers_option_eq nested_option_eq [of opt] unwrap_of_def)
  qed
  from res opt show ?case by simp
qed

lemma unwrapDeep_no_spurious_raise:
  "(layers_result r \<le> n \<and> (\<forall>c \<in> set (nested_result r). \<not> isl (unwrap_of c)) \<longrightarrow>
      (\<exists>v. Result_unwrapDeep n r = Some (Inr v))) \<and>
   (layers_option opt \<le> n \<and> (\<forall>c \<in> set (nested_option opt). \<not> isl (unwrap_of c)) \<longrightarrow>
      (\<exists>v. Option_unwrapDeep n opt = Some (Inr v)))"
proof -
  have res: "\<exists>v. Result_unwrapDeep n r = Some (Inr v)"
    if le: "layers_result r \<le> n" and ok: "\<forall>c \<in> set (nested_result r). \<not> isl (unwrap_of c)"
  proof -
    from le unwrapDeep_returns_iff [of n r opt] obtain y where y: "Result_unwrapDeep n r = Some y"
      by auto
    show ?thesis
    proof (cases y)
      case (Inl x)
      with y unwrapDeep_raises_iff [of n r x opt]
      obtain c where "c \<in> set (nested_result r)" "unwrap_of c = Inl x" by auto
      with ok show ?thesis by auto
    next
      case (Inr v)
      with y show ?thesis by simp
    qed
  qed
  have opt: "\<exists>v. Option_unwrapDeep n opt = Some (Inr v)"
    if le: "layers_option opt \<le> n" and ok: "\<forall>c \<in> set (nested_option opt). \<not> isl (unwrap_of c)"
  proof -
    from le unwrapDeep_returns_iff [of n r opt] obtain y where y: "Option_unwrapDeep n opt = Some y"
      by auto
    show ?thesis
    proof (cases y)
      case (Inl x)
      with y unwrapDeep_raises_iff [of n r x opt]
      obtain c where "c \<in> set (nested_option opt)" "unwrap_of c = Inl x" by auto
      with ok show ?thesis by auto
    next
      case (Inr v)
      with y show ?thesis by simp
    qed
  qed
  from res opt show ?thesis by blast
qed

section \<open>Facts about the transformations\<close>

text \<open>On the active variant the callback is invoked once, which the state shows.\<close>

lemma Result_map_invokes_on_Ok:
  "Result_map fn_counting (Result_ok v) s = (Inr (Result_ok (JString ''mapped'')), Suc s)"
  by (simp add: Result_map_def fn_counting_def Result_ok_fields Result_isOk_def)

lemma Result_mapErr_invokes_on_Error:
  "Result_mapErr fn_counting (Result_err e) s = (Inr (Result_err (JString ''mapped'')), Suc s)"
  by (simp add: Result_mapErr_def fn_counting_def Result_err_fields Result_isErr_def)

lemma Result_map_no_raise:
  "\<not> isl (fst (fn (result_value r) s)) \<Longrightarrow> \<not> isl (fst (Result_map fn r s))"
  by (cases "fn (result_value r) s"; cases "fst (fn (result_value r) s)")
    (simp_all add: Result_map_def)

lemma Result_mapErr_no_raise:
  "\<not> isl (fst (fn (result_error r) s)) \<Longrightarrow> \<not> isl (fst (Result_mapErr fn r s))"
  by (cases "fn (result_error r) s"; cases "fst (fn (result_error r) s)")
    (simp_all add: Result_mapErr_def)

lemma Option_map_no_raise:
  "\<not> isl (fst (fn (option_value opt) s)) \<Longrightarrow> \<not> isl (fst (Option_map fn opt s))"
  by (cases "fn (option_value opt) s"; cases "fst (fn (option_value opt) s)")
    (simp_all add: Option_map_def)

lemma Result_fromPromise_not_rejected: "Result_fromPromise p \<noteq> Rejected reason"
  by (cases p) (simp_all add: Result_fromPromise_def Promise_then_def Promise_catch_def)

lemma unwrap_raises_iff:
  "isl (Result_unwrap r) \<longleftrightarrow> Result_isErr r"
  "isl (Result_unwrapErr r) \<longleftrightarrow> Result_isOk r"
  "isl (Option_unwrap opt) \<longleftrightarrow> Option_isNone opt"
  by (simp_all add: Result_unwrap_def Result_unwrapErr_def Option_unwrap_def
      Result_isOk_iff Option_isSome_iff)

lemma unwrapOr_values:
  "Result_unwrapOr f (Result_ok v) = v" "Result_unwrapOr f (Result_err e) = f"
  "Option_unwrapOr f (Option_some v) = v" "Option_unwrapOr f Option_none = f"
  by (simp_all add: Result_unwrapOr_def Option_unwrapOr_def Result_ok_fields
      Result_err_fields Option_some_fields Option_none_fields Result_isOk_def
      Option_isSome_def)

lemma unwrapDeep_raises:
  "Result_unwrapDeep (Suc n) (Result_err e) = Some (Inl (Throw e))"
  "Option_unwrapDeep (Suc n) Option_none =
     Some (Inl (Throw_new_Error ''Cannot unwrap a None option''))"
  by (simp_all add: Result_unwrap_def Option_unwrap_def Result_err_fields
      Option_none_fields Result_isOk_def Option_isSome_def)

lemma Result_map_raises_iff:
  "fst (Result_map fn r s) = Inl x \<longleftrightarrow> Result_isOk r \<and> fst (fn (result_value r) s) = Inl x"
  by (cases "fn (result_value r) s"; cases "fst (fn (result_value r) s)")
    (auto simp: Result_map_def)

lemma Result_mapErr_raises_iff:
  "fst (Result_mapErr fn r s) = Inl x \<longleftrightarrow> Result_isErr r \<and> fst (fn (result_error r) s) = Inl x"
  by (cases "fn (result_error r) s"; cases "fst (fn (result_error r) s)")
    (auto simp: Result_mapErr_def)

lemma Option_map_raises_iff:
  "fst (Option_map fn opt s) = Inl x \<longleftrightarrow>
   Option_isSome opt \<and> fst (fn (option_value opt) s) = Inl x"
  by (cases "fn (option_value opt) s"; cases "fst (fn (option_value opt) s)")
    (auto simp: Option_map_def)

section \<open>The claims\<close>

text \<open>
  C1. For every value \<open>v\<close>, \<open>Result.ok(v).isOk()\<close> is true,
  \<open>Result.ok(v).isErr()\<close> is false and \<open>Result.ok(v).unwrap()\<close> returns \<open>v\<close>;
  for every error object \<open>e\<close>, \<open>Result.err(e).unwrap()\<close> raises the object \<open>e\<close>
  itself, not a wrapper around it.
\<close>

theorem Result_ok_unwrap_err_raises:
  "Result_isOk (Result_ok v) \<and> \<not> Result_isErr (Result_ok v) \<and>
   Result_unwrap (Result_ok v) = Inr v \<and>
   Result_unwrap (Result_err e) = Inl (Throw e)"
  by (simp add: Result_ok_fields Result_err_fields Result_isOk_def Result_isErr_def
      Result_unwrap_def)

text \<open>
  C2. For every error object \<open>e\<close>, \<open>Result.err(e).unwrapErr()\<close> returns \<open>e\<close>;
  for every value \<open>v\<close>, \<open>Result.ok(v).unwrapErr()\<close> raises the newly made
  "Cannot unwrapErr an Ok result" error, which is neither \<open>v\<close> nor what the error slot
  of the Result holds, and it does not return.
\<close>

theorem Result_unwrapErr_misuse:
  "Result_unwrapErr (Result_err e) = Inr e \<and>
   Result_unwrapErr (Result_ok v) = Inl (Throw_new_Error ''Cannot unwrapErr an Ok result'') \<and>
   Result_unwrapErr (Result_ok v) \<noteq> Inl (Throw v) \<and>
   Result_unwrapErr (Result_ok v) \<noteq> Inl (Throw (result_error (Result_ok v))) \<and>
   Result_unwrapErr (Result_ok v) \<noteq> Inr v"
  by (simp add: Result_ok_fields Result_err_fields Result_isErr_def Result_unwrapErr_def)

text \<open>
  C3, as stated, says that \<open>unwrapDeep\<close> never throws. It does:
  \<open>Result.err(e).unwrapDeep()\<close> raises \<open>e\<close>, \<open>Option.none().unwrapDeep()\<close> and
  \<open>Result.ok(Option.none()).unwrapDeep()\<close> raise the "Cannot unwrap a None option"
  error.
\<close>

theorem unwrapDeep_raises_counterexample:
  "Result_unwrapDeep 1 (Result_err (JError 0 ''boom'')) = Some (Inl (Throw (JError 0 ''boom''))) \<and>
   Option_unwrapDeep 1 Option_none =
     Some (Inl (Throw_new_Error ''Cannot unwrap a None option'')) \<and>
   Result_unwrapDeep 2 (Result_ok (VOption Option_none)) =
     Some (Inl (Throw_new_Error ''Cannot unwrap a None option''))"
  by (simp add: numeral_2_eq_2 Result_unwrap_def Option_unwrap_def Result_ok_fields
      Result_err_fields Option_none_fields Result_isOk_def Option_isSome_def)

text \<open>
  C3, amended. \<open>unwrap\<close>, \<open>unwrapErr\<close> and \<open>unwrapDeep\<close> (of both classes) are the
  only operations that can raise.
  \<^item> \<open>unwrap\<close> and \<open>unwrapErr\<close> raise exactly on the wrong variant.
  \<^item> \<open>unwrapDeep\<close> raises exactly what an \<open>unwrap\<close> it performs raises, on the
    receiver or on a container nested in it: a call whose \<open>unwrap\<close> raises passes the
    exception on, a call whose \<open>unwrap\<close> gives a container is the \<open>unwrapDeep\<close> of
    that container (so an exception of the nested container is the exception of the
    whole), and a call whose \<open>unwrap\<close> gives any other payload returns it. With enough
    calls allowed, \<open>unwrapDeep\<close> raises \<open>x\<close> iff the \<open>unwrap\<close> of one of the
    containers it goes through raises \<open>x\<close>, and it returns a value when none of them
    raises.
  \<^item> Every other operation returns: \<open>map\<close>, \<open>mapErr\<close> and \<open>Option.map\<close> raise
    exactly when the callback is invoked (active variant) and raises, and then what the
    callback raised; the promise of \<open>fromPromise\<close> is never rejected; \<open>unwrapOr\<close>
    returns the payload or the fallback. (The constructors, the predicates and
    \<open>Option.from\<close> contain neither a \<open>throw\<close> nor a call of a function that has
    one.)
\<close>

theorem only_unwrap_family_raises:
  "(\<not> isl (fst (fn (result_value r) s)) \<longrightarrow> \<not> isl (fst (Result_map fn r s))) \<and>
   (\<not> isl (fst (fn (result_error r) s)) \<longrightarrow> \<not> isl (fst (Result_mapErr fn r s))) \<and>
   (\<not> isl (fst (fn (option_value opt) s)) \<longrightarrow> \<not> isl (fst (Option_map fn opt s))) \<and>
   Result_fromPromise p \<noteq> Rejected reason \<and>
   Result_unwrapOr f (Result_ok v) = v \<and> Result_unwrapOr f (Result_err e) = f \<and>
   Option_unwrapOr f (Option_some v) = v \<and> Option_unwrapOr f Option_none = f \<and>
   (isl (Result_unwrap r) \<longleftrightarrow> Result_isErr r) \<and>
   (isl (Result_unwrapErr r) \<longleftrightarrow> Result_isOk r) \<and>
   (isl (Option_unwrap opt) \<longleftrightarrow> Option_isNone opt) \<and>
   (Result_unwrap r = Inl x \<longrightarrow> Result_unwrapDeep (Suc n) r = Some (Inl x)) \<and>
   (Option_unwrap opt = Inl y \<longrightarrow> Option_unwrapDeep (Suc n) opt = Some (Inl y)) \<and>
   Result_unwrapDeep (Suc n) (Result_err e) = Some (Inl (Throw e)) \<and>
   Option_unwrapDeep (Suc n) Option_none =
     Some (Inl (Throw_new_Error ''Cannot unwrap a None option'')) \<and>
   (fst (Result_map fn r s) = Inl z \<longleftrightarrow>
      Result_isOk r \<and> fst (fn (result_value r) s) = Inl z) \<and>
   (fst (Result_mapErr fn r s) = Inl z \<longleftrightarrow>
      Result_isErr r \<and> fst (fn (result_error r) s) = Inl z) \<and>
   (fst (Option_map fn opt s) = Inl z \<longleftrightarrow>
      Option_isSome opt \<and> fst (fn (option_value opt) s) = Inl z) \<and>
   (Result_unwrap r = Inr (VResult r') \<longrightarrow>
      Result_unwrapDeep (Suc n) r = Result_unwrapDeep n r') \<and>
   (Result_unwrap r = Inr (VOption opt') \<longrightarrow>
      Result_unwrapDeep (Suc n) r = Option_unwrapDeep n opt') \<and>
   (Option_unwrap opt = Inr (VResult r') \<longrightarrow>
      Option_unwrapDeep (Suc n) opt = Result_unwrapDeep n r') \<and>
   (Option_unwrap opt = Inr (VOption opt') \<longrightarrow>
      Option_unwrapDeep (Suc n) opt = Option_unwrapDeep n opt') \<and>
   (Result_unwrap r = Inr w \<and> \<not> is_container w \<longrightarrow>
      Result_unwrapDeep (Suc n) r = Some (Inr w)) \<and>
   (Option_unwrap opt = Inr w \<and> \<not> is_container w \<longrightarrow>
      Option_unwrapDeep (Suc n) opt = Some (Inr w)) \<and>
   (Result_unwrapDeep n r = Some (Inl x) \<longleftrightarrow>
      layers_result r \<le> n \<and> (\<exists>c \<in> set (nested_result r). unwrap_of c = Inl x)) \<and>
   (Option_unwrapDeep n opt = Some (Inl y) \<longleftrightarrow>
      layers_option opt \<le> n \<and> (\<exists>c \<in> set (nested_option opt). unwrap_of c = Inl y)) \<and>
   (layers_result r \<le> n \<and> (\<forall>c \<in> set (nested_result r). \<not> isl (unwrap_of c)) \<longrightarrow>
      (\<exists>u. Result_unwrapDeep n r = Some (Inr u))) \<and>
   (layers_option opt \<le> n \<and> (\<forall>c \<in> set (nested_option opt). \<not> isl (unwrap_of c)) \<longrightarrow>
      (\<exists>u. Option_unwrapDeep n opt = Some (Inr u)))"
proof -
  have maps:
    "\<not> isl (fst (fn (result_value r) s)) \<longrightarrow> \<not> isl (fst (Result_map fn r s))"
    "\<not> isl (fst (fn (result_error r) s)) \<longrightarrow> \<not> isl (fst (Result_mapErr fn r s))"
    "\<not> isl (fst (fn (option_value opt) s)) \<longrightarrow> \<not> isl (fst (Option_map fn opt s))"
    by (simp_all add: Result_map_no_raise Result_mapErr_no_raise Option_map_no_raise)
  have total:
    "Result_fromPromise p \<noteq> Rejected reason"
    "Result_unwrapOr f (Result_ok v) = v" "Result_unwrapOr f (Result_err e) = f"
    "Option_unwrapOr f (Option_some v) = v" "Option_unwrapOr f Option_none = f"
    by (simp_all add: Result_fromPromise_not_rejected unwrapOr_values)
  have wrong_variant:
    "isl (Result_unwrap r) \<longleftrightarrow> Result_isErr r"
    "isl (Result_unwrapErr r) \<longleftrightarrow> Result_isOk r"
    "isl (Option_unwrap opt) \<longleftrightarrow> Option_isNone opt"
    by (rule unwrap_raises_iff)+
  have receiver:
    "Result_unwrap r = Inl x \<longrightarrow> Result_unwrapDeep (Suc n) r = Some (Inl x)"
    "Option_unwrap opt = Inl y \<longrightarrow> Option_unwrapDeep (Suc n) opt = Some (Inl y)"
    by simp_all
  have wrong_receiver:
    "Result_unwrapDeep (Suc n) (Result_err e) = Some (Inl (Throw e))"
    "Option_unwrapDeep (Suc n) Option_none =
       Some (Inl (Throw_new_Error ''Cannot unwrap a None option''))"
    by (rule unwrapDeep_raises)+
  have map_iff:
    "fst (Result_map fn r s) = Inl z \<longleftrightarrow>
       Result_isOk r \<and> fst (fn (result_value r) s) = Inl z"
    "fst (Result_mapErr fn r s) = Inl z \<longleftrightarrow>
       Result_isErr r \<and> fst (fn (result_error r) s) = Inl z"
    "fst (Option_map fn opt s) = Inl z \<longleftrightarrow>
       Option_isSome opt \<and> fst (fn (option_value opt) s) = Inl z"
    by (rule Result_map_raises_iff Result_mapErr_raises_iff Option_map_raises_iff)+
  have steps:
    "Result_unwrap r = Inr (VResult r') \<longrightarrow>
       Result_unwrapDeep (Suc n) r = Result_unwrapDeep n r'"
    "Result_unwrap r = Inr (VOption opt') \<longrightarrow>
       Result_unwrapDeep (Suc n) r = Option_unwrapDeep n opt'"
    "Option_unwrap opt = Inr (VResult r') \<longrightarrow>
       Option_unwrapDeep (Suc n) opt = Result_unwrapDeep n r'"
    "Option_unwrap opt = Inr (VOption opt') \<longrightarrow>
       Option_unwrapDeep (Suc n) opt = Option_unwrapDeep n opt'"
    by simp_all
  have plain:
    "Result_unwrap r = Inr w \<and> \<not> is_container w \<longrightarrow>
       Result_unwrapDeep (Suc n) r = Some (Inr w)"
    "Option_unwrap opt = Inr w \<and> \<not> is_container w \<longrightarrow>
       Option_unwrapDeep (Suc n) opt = Some (Inr w)"
    using Result_unwrapDeep_Suc_plain [of r w n] Option_unwrapDeep_Suc_plain [of opt w n]
    by blast+
  have raise_iff:
    "Result_unwrapDeep n r = Some (Inl x) \<longleftrightarrow>
       layers_result r \<le> n \<and> (\<exists>c \<in> set (nested_result r). unwrap_of c = Inl x)"
    "Option_unwrapDeep n opt = Some (Inl y) \<longleftrightarrow>
       layers_option opt \<le> n \<and> (\<exists>c \<in> set (nested_option opt). unwrap_of c = Inl y)"
    using unwrapDeep_raises_iff [of n r x opt] unwrapDeep_raises_iff [of n r y opt]
    by blast+
  have no_spurious:
    "layers_result r \<le> n \<and> (\<forall>c \<in> set (nested_result r). \<not> isl (unwrap_of c)) \<longrightarrow>
       (\<exists>u. Result_unwrapDeep n r = Some (Inr u))"
    "layers_option opt \<le> n \<and> (\<forall>c \<in> set (nested_option opt). \<not> isl (unwrap_of c)) \<longrightarrow>
       (\<exists>u. Option_unwrapDeep n opt = Some (Inr u))"
    using unwrapDeep_no_spurious_raise [of r n opt] by blast+
  show ?thesis
    by (intro conjI maps total wrong_variant receiver wrong_receiver map_iff steps plain raise_iff no_spurious)
qed

theorem only_unwrap_family_raises_witness:
  "\<not> isl (fst (fn_counting (result_value (Result_ok (JNumber 1))) (0::nat))) \<and>
   \<not> isl (fst (fn_counting (result_error (Result_err (JError 0 ''boom''))) (0::nat))) \<and>
   \<not> isl (fst (fn_counting (option_value (Option_some (JNumber 1))) (0::nat))) \<and>
   \<not> isl (fst (Result_map fn_counting (Result_ok (JNumber 1)) 0)) \<and>
   \<not> isl (fst (Result_mapErr fn_counting (Result_err (JError 0 ''boom'')) 0)) \<and>
   \<not> isl (fst (Option_map fn_counting (Option_some (JNumber 1)) 0)) \<and>
   Result_isOk (Result_ok (JNumber 1)) \<and>
   Result_isErr (Result_err (JError 0 ''boom'')) \<and>
   Option_isSome (Option_some (JNumber 1)) \<and>
   fst (fn_throwing (result_value (Result_ok (JNumber 1))) 0) = Inl (Throw (JNumber 1)) \<and>
   fst (fn_throwing (result_error (Result_err (JError 0 ''boom''))) 0) =
     Inl (Throw (JError 0 ''boom'')) \<and>
   fst (fn_throwing (option_value (Option_some (JNumber 1))) 0) = Inl (Throw (JNumber 1)) \<and>
   fst (Result_map fn_throwing (Result_ok (JNumber 1)) 0) = Inl (Throw (JNumber 1)) \<and>
   fst (Result_mapErr fn_throwing (Result_err (JError 0 ''boom'')) 0) =
     Inl (Throw (JError 0 ''boom'')) \<and>
   fst (Option_map fn_throwing (Option_some (JNumber 1)) 0) = Inl (Throw (JNumber 1)) \<and>
   Option_isNone Option_none \<and>
   Result_unwrap (Result_err (JError 0 ''boom'')) = Inl (Throw (JError 0 ''boom'')) \<and>
   Option_unwrap Option_none = Inl (Throw_new_Error ''Cannot unwrap a None option'') \<and>
   isl (Result_unwrap (Result_err (JError 0 ''boom''))) \<and>
   isl (Option_unwrap Option_none) \<and>
   Result_unwrapDeep (Suc 0) (Result_err (JError 0 ''boom'')) =
     Some (Inl (Throw (JError 0 ''boom''))) \<and>
   Option_unwrapDeep (Suc 0) Option_none =
     Some (Inl (Throw_new_Error ''Cannot unwrap a None option'')) \<and>
   Result_unwrap (Result_ok (VOption Option_none)) = Inr (VOption Option_none) \<and>
   Option_unwrap (Option_some (VResult (Result_err (JError 0 ''boom'')))) =
     Inr (VResult (Result_err (JError 0 ''boom''))) \<and>
   Result_unwrapDeep (Suc 1) (Result_ok (VOption Option_none)) =
     Option_unwrapDeep 1 Option_none \<and>
   Option_unwrapDeep (Suc 1) (Option_some (VResult (Result_err (JError 0 ''boom'')))) =
     Result_unwrapDeep 1 (Result_err (JError 0 ''boom'')) \<and>
   layers_result (Result_ok (VOption Option_none)) \<le> 2 \<and>
   Inr Option_none \<in> set (nested_result (Result_ok (VOption Option_none))) \<and>
   unwrap_of (Inr Option_none) = Inl (Throw_new_Error ''Cannot unwrap a None option'') \<and>
   Result_unwrapDeep 2 (Result_ok (VOption Option_none)) =
     Some (Inl (Throw_new_Error ''Cannot unwrap a None option'')) \<and>
   layers_option (Option_some (VResult (Result_err (JError 0 ''boom'')))) \<le> 2 \<and>
   Inl (Result_err (JError 0 ''boom'')) \<in>
     set (nested_option (Option_some (VResult (Result_err (JError 0 ''boom''))))) \<and>
   unwrap_of (Inl (Result_err (JError 0 ''boom''))) = Inl (Throw (JError 0 ''boom'')) \<and>
   Option_unwrapDeep 2 (Option_some (VResult (Result_err (JError 0 ''boom'')))) =
     Some (Inl (Throw (JError 0 ''boom''))) \<and>
   Result_unwrap (Result_ok (JNumber 5)) = Inr (JNumber 5) \<and>
   Option_unwrap (Option_some (JNumber 5)) = Inr (JNumber 5) \<and>
   \<not> is_container (JNumber 5) \<and>
   Result_unwrapDeep (Suc 0) (Result_ok (JNumber 5)) = Some (Inr (JNumber 5)) \<and>
   Option_unwrapDeep (Suc 0) (Option_some (JNumber 5)) = Some (Inr (JNumber 5)) \<and>
   layers_result (Result_ok (VResult (Result_ok (VOption (Option_some (JNumber 5)))))) \<le> 3 \<and>
   list_all (\<lambda>c. \<not> isl (unwrap_of c))
     (nested_result (Result_ok (VResult (Result_ok (VOption (Option_some (JNumber 5))))))) \<and>
   (\<exists>u. Result_unwrapDeep 3
          (Result_ok (VResult (Result_ok (VOption (Option_some (JNumber 5)))))) =
        Some (Inr u)) \<and>
   layers_option (Option_some (VResult (Result_ok (JNumber 5)))) \<le> 2 \<and>
   list_all (\<lambda>c. \<not> isl (unwrap_of c))
     (nested_option (Option_some (VResult (Result_ok (JNumber 5))))) \<and>
   (\<exists>u. Option_unwrapDeep 2 (Option_some (VResult (Result_ok (JNumber 5)))) = Some (Inr u))"
proof -
  let ?boom = "JError 0 ''boom''"
  let ?none_error = "Throw_new_Error ''Cannot unwrap a None option''"
  let ?R2 = "Result_ok (VOption Option_none)"
  let ?O2 = "Option_some (VResult (Result_err ?boom))"
  let ?R3 = "Result_ok (VResult (Result_ok (VOption (Option_some (JNumber 5)))))"
  let ?O3 = "Option_some (VResult (Result_ok (JNumber 5)))"
  note evals = fn_counting_def fn_throwing_def Result_ok_fields Result_err_fields
    Option_some_fields Option_none_fields Result_isOk_def Result_isErr_def Option_isSome_def
    Option_isNone_def Result_unwrap_def Option_unwrap_def unwrap_of_def is_container_def
  have active:
    "\<not> isl (fst (fn_counting (result_value (Result_ok (JNumber 1))) (0::nat)))"
    "\<not> isl (fst (fn_counting (result_error (Result_err ?boom)) (0::nat)))"
    "\<not> isl (fst (fn_counting (option_value (Option_some (JNumber 1))) (0::nat)))"
    "Result_isOk (Result_ok (JNumber 1))" "Result_isErr (Result_err ?boom)"
    "Option_isSome (Option_some (JNumber 1))"
    "fst (fn_throwing (result_value (Result_ok (JNumber 1))) 0) = Inl (Throw (JNumber 1))"
    "fst (fn_throwing (result_error (Result_err ?boom)) 0) = Inl (Throw ?boom)"
    "fst (fn_throwing (option_value (Option_some (JNumber 1))) 0) = Inl (Throw (JNumber 1))"
    by (simp_all add: evals)
  note on_active =
    only_unwrap_family_raises [where fn = fn_counting and r = "Result_ok (JNumber 1)" and
      s = "0::nat" and opt = "Option_some (JNumber 1)" and p = Pending and
      reason = JNull and f = JNull and v = JNull and e = JNull and x = "Throw JNull" and
      n = 0 and y = "Throw JNull" and z = "Throw JNull" and r' = "Result_ok JNull" and
      opt' = Option_none and w = JNull]
  have a1:
    "\<not> isl (fst (fn_counting (result_value (Result_ok (JNumber 1))) 0))
      \<longrightarrow> \<not> isl (fst (Result_map fn_counting (Result_ok (JNumber 1))
      0))"
    using on_active by - (elim conjE, assumption)
  have a2:
    "\<not> isl (fst (fn_counting (option_value (Option_some (JNumber 1))) 0))
      \<longrightarrow> \<not> isl (fst (Option_map fn_counting (Option_some (JNumber 1))
      0))"
    using on_active by - (elim conjE, assumption)
  note on_error =
    only_unwrap_family_raises [where fn = fn_counting and r = "Result_err ?boom" and
      s = "0::nat" and opt = Option_none and p = Pending and reason = JNull and
      f = JNull and v = JNull and e = JNull and x = "Throw ?boom" and n = 0 and
      y = ?none_error and z = "Throw JNull" and r' = "Result_ok JNull" and
      opt' = Option_none and w = JNull]
  have b1:
    "\<not> isl (fst (fn_counting (result_error (Result_err ?boom)) 0)) \<longrightarrow>
      \<not> isl (fst (Result_mapErr fn_counting (Result_err ?boom) 0))"
    using on_error by - (elim conjE, assumption)
  have b2:
    "isl (Result_unwrap (Result_err ?boom)) \<longleftrightarrow> Result_isErr (Result_err
      ?boom)"
    using on_error by - (elim conjE, assumption)
  have b3:
    "isl (Option_unwrap Option_none) \<longleftrightarrow> Option_isNone Option_none"
    using on_error by - (elim conjE, assumption)
  have b4:
    "Result_unwrap (Result_err ?boom) = Inl (Throw ?boom) \<longrightarrow>
      Result_unwrapDeep (Suc 0) (Result_err ?boom) = Some (Inl (Throw ?boom))"
    using on_error by - (elim conjE, assumption)
  have b5:
    "Option_unwrap Option_none = Inl ?none_error \<longrightarrow> Option_unwrapDeep (Suc
      0) Option_none = Some (Inl ?none_error)"
    using on_error by - (elim conjE, assumption)
  note throwing_on_active =
    only_unwrap_family_raises [where fn = fn_throwing and r = "Result_ok (JNumber 1)" and
      s = "0::nat" and opt = "Option_some (JNumber 1)" and p = Pending and
      reason = JNull and f = JNull and v = JNull and e = JNull and x = "Throw JNull" and
      n = 0 and y = "Throw JNull" and z = "Throw (JNumber 1)" and
      r' = "Result_ok JNull" and opt' = Option_none and w = JNull]
  have c1:
    "fst (Result_map fn_throwing (Result_ok (JNumber 1)) 0) = Inl (Throw (JNumber 1))
      \<longleftrightarrow> Result_isOk (Result_ok (JNumber 1)) \<and> fst (fn_throwing
      (result_value (Result_ok (JNumber 1))) 0) = Inl (Throw (JNumber 1))"
    using throwing_on_active by - (elim conjE, assumption)
  have c2:
    "fst (Option_map fn_throwing (Option_some (JNumber 1)) 0) = Inl (Throw (JNumber 1))
      \<longleftrightarrow> Option_isSome (Option_some (JNumber 1)) \<and> fst (fn_throwing
      (option_value (Option_some (JNumber 1))) 0) = Inl (Throw (JNumber 1))"
    using throwing_on_active by - (elim conjE, assumption)
  note throwing_on_error =
    only_unwrap_family_raises [where fn = fn_throwing and r = "Result_err ?boom" and
      s = "0::nat" and opt = "Option_some (JNumber 5)" and p = Pending and
      reason = JNull and f = JNull and v = JNull and e = JNull and x = "Throw JNull" and
      n = 0 and y = "Throw JNull" and z = "Throw ?boom" and r' = "Result_ok JNull" and
      opt' = Option_none and w = JNull]
  have d1:
    "fst (Result_mapErr fn_throwing (Result_err ?boom) 0) = Inl (Throw ?boom)
      \<longleftrightarrow> Result_isErr (Result_err ?boom) \<and> fst (fn_throwing
      (result_error (Result_err ?boom)) 0) = Inl (Throw ?boom)"
    using throwing_on_error by - (elim conjE, assumption)
  have quiet:
    "\<not> isl (fst (Result_map fn_counting (Result_ok (JNumber 1)) 0))"
    "\<not> isl (fst (Result_mapErr fn_counting (Result_err ?boom) 0))"
    "\<not> isl (fst (Option_map fn_counting (Option_some (JNumber 1)) 0))"
    using active(1-3) a1 b1 a2 by blast+
  have loud:
    "fst (Result_map fn_throwing (Result_ok (JNumber 1)) 0) = Inl (Throw (JNumber 1))"
    "fst (Result_mapErr fn_throwing (Result_err ?boom) 0) = Inl (Throw ?boom)"
    "fst (Option_map fn_throwing (Option_some (JNumber 1)) 0) = Inl (Throw (JNumber 1))"
    using active(4-9) c1 d1 c2 by blast+
  have wrong:
    "Option_isNone Option_none"
    "Result_unwrap (Result_err ?boom) = Inl (Throw ?boom)"
    "Option_unwrap Option_none = Inl ?none_error"
    by (simp_all add: evals)
  have at_receiver:
    "isl (Result_unwrap (Result_err ?boom))" "isl (Option_unwrap Option_none)"
    "Result_unwrapDeep (Suc 0) (Result_err ?boom) = Some (Inl (Throw ?boom))"
    "Option_unwrapDeep (Suc 0) Option_none = Some (Inl ?none_error)"
    using active(5) wrong b2 b3 b4 b5 by blast+
  have inner:
    "Result_unwrap ?R2 = Inr (VOption Option_none)"
    "Option_unwrap ?O2 = Inr (VResult (Result_err ?boom))"
    "layers_result ?R2 \<le> 2" "Inr Option_none \<in> set (nested_result ?R2)"
    "unwrap_of (Inr Option_none) = Inl ?none_error"
    "layers_option ?O2 \<le> 2" "Inl (Result_err ?boom) \<in> set (nested_option ?O2)"
    "unwrap_of (Inl (Result_err ?boom)) = Inl (Throw ?boom)"
    by (simp_all add: evals)
  note one_level_down =
    only_unwrap_family_raises [where fn = fn_counting and r = ?R2 and s = "0::nat" and
      opt = ?O2 and p = Pending and reason = JNull and f = JNull and v = JNull and
      e = JNull and x = "Throw JNull" and n = 1 and y = "Throw JNull" and
      z = "Throw JNull" and r' = "Result_err ?boom" and opt' = Option_none and w = JNull]
  have e1:
    "Result_unwrap ?R2 = Inr (VOption Option_none) \<longrightarrow> Result_unwrapDeep (Suc
      1) ?R2 = Option_unwrapDeep 1 Option_none"
    using one_level_down by - (elim conjE, assumption)
  have e2:
    "Option_unwrap ?O2 = Inr (VResult (Result_err ?boom)) \<longrightarrow>
      Option_unwrapDeep (Suc 1) ?O2 = Result_unwrapDeep 1 (Result_err ?boom)"
    using one_level_down by - (elim conjE, assumption)
  note two_calls =
    only_unwrap_family_raises [where fn = fn_counting and r = ?R2 and s = "0::nat" and
      opt = ?O2 and p = Pending and reason = JNull and f = JNull and v = JNull and
      e = JNull and x = ?none_error and n = 2 and y = "Throw ?boom" and
      z = "Throw JNull" and r' = "Result_ok JNull" and opt' = Option_none and w = JNull]
  have f1:
    "Result_unwrapDeep 2 ?R2 = Some (Inl ?none_error) \<longleftrightarrow> layers_result
      ?R2 \<le> 2 \<and> (\<exists>c \<in> set (nested_result ?R2). unwrap_of c = Inl
      ?none_error)"
    using two_calls by - (elim conjE, assumption)
  have f2:
    "Option_unwrapDeep 2 ?O2 = Some (Inl (Throw ?boom)) \<longleftrightarrow> layers_option
      ?O2 \<le> 2 \<and> (\<exists>c \<in> set (nested_option ?O2). unwrap_of c = Inl
      (Throw ?boom))"
    using two_calls by - (elim conjE, assumption)
  have nested_steps:
    "Result_unwrapDeep (Suc 1) ?R2 = Option_unwrapDeep 1 Option_none"
    "Option_unwrapDeep (Suc 1) ?O2 = Result_unwrapDeep 1 (Result_err ?boom)"
    using inner(1,2) e1 e2 by blast+
  have nested_raises:
    "Result_unwrapDeep 2 ?R2 = Some (Inl ?none_error)"
    "Option_unwrapDeep 2 ?O2 = Some (Inl (Throw ?boom))"
    using inner(3-8) f1 f2 by blast+
  have payload:
    "Result_unwrap (Result_ok (JNumber 5)) = Inr (JNumber 5)"
    "Option_unwrap (Option_some (JNumber 5)) = Inr (JNumber 5)"
    "\<not> is_container (JNumber 5)"
    by (simp_all add: evals)
  note plain_payload =
    only_unwrap_family_raises [where fn = fn_counting and r = "Result_ok (JNumber 5)" and
      s = "0::nat" and opt = "Option_some (JNumber 5)" and p = Pending and
      reason = JNull and f = JNull and v = JNull and e = JNull and x = "Throw JNull" and
      n = 0 and y = "Throw JNull" and z = "Throw JNull" and r' = "Result_ok JNull" and
      opt' = Option_none and w = "JNumber 5"]
  have g1:
    "Result_unwrap (Result_ok (JNumber 5)) = Inr (JNumber 5) \<and> \<not> is_container
      (JNumber 5) \<longrightarrow> Result_unwrapDeep (Suc 0) (Result_ok (JNumber 5)) =
      Some (Inr (JNumber 5))"
    using plain_payload by - (elim conjE, assumption)
  have g2:
    "Option_unwrap (Option_some (JNumber 5)) = Inr (JNumber 5) \<and> \<not> is_container
      (JNumber 5) \<longrightarrow> Option_unwrapDeep (Suc 0) (Option_some (JNumber 5)) =
      Some (Inr (JNumber 5))"
    using plain_payload by - (elim conjE, assumption)
  have returned:
    "Result_unwrapDeep (Suc 0) (Result_ok (JNumber 5)) = Some (Inr (JNumber 5))"
    "Option_unwrapDeep (Suc 0) (Option_some (JNumber 5)) = Some (Inr (JNumber 5))"
    using payload g1 g2 by blast+
  have chain:
    "layers_result ?R3 \<le> 3" "list_all (\<lambda>c. \<not> isl (unwrap_of c)) (nested_result ?R3)"
    "layers_option ?O3 \<le> 2" "list_all (\<lambda>c. \<not> isl (unwrap_of c)) (nested_option ?O3)"
    by (simp_all add: evals)
  note three_calls =
    only_unwrap_family_raises [where fn = fn_counting and r = ?R3 and s = "0::nat" and
      opt = ?O3 and p = Pending and reason = JNull and f = JNull and v = JNull and
      e = JNull and x = "Throw JNull" and n = 3 and y = "Throw JNull" and
      z = "Throw JNull" and r' = "Result_ok JNull" and opt' = Option_none and w = JNull]
  have h1:
    "layers_result ?R3 \<le> 3 \<and> (\<forall>c \<in> set (nested_result ?R3). \<not> isl
      (unwrap_of c)) \<longrightarrow> (\<exists>u. Result_unwrapDeep 3 ?R3 = Some (Inr
      u))"
    using three_calls by - (elim conjE, assumption)
  note two_calls_opt =
    only_unwrap_family_raises [where fn = fn_counting and r = ?R3 and s = "0::nat" and
      opt = ?O3 and p = Pending and reason = JNull and f = JNull and v = JNull and
      e = JNull and x = "Throw JNull" and n = 2 and y = "Throw JNull" and
      z = "Throw JNull" and r' = "Result_ok JNull" and opt' = Option_none and w = JNull]
  have i1:
    "layers_option ?O3 \<le> 2 \<and> (\<forall>c \<in> set (nested_option ?O3). \<not> isl
      (unwrap_of c)) \<longrightarrow> (\<exists>u. Option_unwrapDeep 2 ?O3 = Some (Inr
      u))"
    using two_calls_opt by - (elim conjE, assumption)
  have no_raise: "\<exists>u. Result_unwrapDeep 3 ?R3 = Some (Inr u)"
    using chain(1,2) h1 unfolding list_all_iff by blast
  have no_raise_opt: "\<exists>u. Option_unwrapDeep 2 ?O3 = Some (Inr u)"
    using chain(3,4) i1 unfolding list_all_iff by blast
  show ?thesis
    by (intro conjI active quiet loud wrong at_receiver inner nested_steps nested_raises
        payload returned chain no_raise no_raise_opt)
qed

text \<open>
  C4. For every Result \<open>r\<close>, of either variant, \<open>r.map(x => x)\<close> yields a Result
  structurally equal to \<open>r\<close>: the same variant, the same success value when Ok, the
  same error object when Error. For the Results that the constructors build, the new
  Result equals the old one field by field.
\<close>

theorem Result_map_identity:
  "Result_map fn_identity (Result_ok v) s = (Inr (Result_ok v), s) \<and>
   Result_map fn_identity (Result_err e) s = (Inr (Result_err e), s) \<and>
   (\<exists>r'. Result_map fn_identity r s = (Inr r', s) \<and>
         result_type r' = result_type r \<and>
         (Result_isOk r \<longrightarrow> result_value r' = result_value r) \<and>
         (Result_isErr r \<longrightarrow> result_error r' = result_error r))"
  by (cases "result_type r")
    (simp_all add: Result_map_def fn_identity_def Result_ok_fields Result_err_fields
      Result_isOk_def Result_isErr_def)

theorem Result_map_identity_witness:
  "Result_isOk (Result_ok (JNumber 1)) \<and> Result_isErr (Result_err (JError 0 ''e'')) \<and>
   (\<exists>r'. Result_map fn_identity (Result_ok (JNumber 1)) (0::nat) = (Inr r', 0) \<and>
         result_type r' = Type_ok \<and> result_value r' = JNumber 1) \<and>
   (\<exists>r'. Result_map fn_identity (Result_err (JError 0 ''e'')) (0::nat) = (Inr r', 0) \<and>
         result_type r' = Type_error \<and> result_error r' = JError 0 ''e'')"
proof -
  have hyps:
    "Result_isOk (Result_ok (JNumber 1))" "Result_isErr (Result_err (JError 0 ''e''))"
    "result_type (Result_ok (JNumber 1)) = Type_ok"
    "result_value (Result_ok (JNumber 1)) = JNumber 1"
    "result_type (Result_err (JError 0 ''e'')) = Type_error"
    "result_error (Result_err (JError 0 ''e'')) = JError 0 ''e''"
    by (simp_all add: Result_ok_fields Result_err_fields Result_isOk_def Result_isErr_def)
  show ?thesis
    using hyps
      Result_map_identity [of _ "0::nat" _ "Result_ok (JNumber 1)"]
      Result_map_identity [of _ "0::nat" _ "Result_err (JError 0 ''e'')"]
    by metis
qed

text \<open>
  C5. \<open>map\<close> and \<open>mapErr\<close> forward the payload of the inactive variant unchanged
  and do not raise: for every error \<open>e\<close> and every callback \<open>fn\<close>,
  \<open>Result.err(e).map(fn)\<close> does not invoke \<open>fn\<close> (the result does not depend on
  \<open>fn\<close> and the caller's state is untouched) and returns an Error-variant Result
  carrying \<open>e\<close>; for every value \<open>v\<close>, \<open>Result.ok(v).mapErr(fn)\<close> does not invoke
  \<open>fn\<close> and returns an Ok-variant Result carrying \<open>v\<close>.
\<close>

theorem map_forwards_inactive_payload:
  "Result_map fn (Result_err e) s = (Inr (Result_err e), s) \<and>
   Result_isErr (Result_err e) \<and> result_error (Result_err e) = e \<and>
   Result_mapErr fn (Result_ok v) s = (Inr (Result_ok v), s) \<and>
   Result_isOk (Result_ok v) \<and> result_value (Result_ok v) = v"
  by (simp add: Result_map_def Result_mapErr_def Result_ok_fields Result_err_fields
      Result_isOk_def Result_isErr_def)

text \<open>
  C6. \<open>unwrapDeep\<close> unwraps nested Result and Option layers until it reaches a value
  that is not a container: a payload that is a Result or an Option is unwrapped in
  turn, any other payload is returned as it is. In particular
  \<open>Result.ok(Result.ok(Option.some(5))).unwrapDeep()\<close> returns \<open>5\<close> (three calls are
  made, so any allowance of at least three gives the result).
\<close>

theorem unwrapDeep_nested_example:
  "Result_unwrapDeep (3 + n)
     (Result_ok (VResult (Result_ok (VOption (Option_some (JNumber 5)))))) =
     Some (Inr (JNumber 5)) \<and>
   Result_unwrapDeep (Suc n) (Result_ok (VResult r)) = Result_unwrapDeep n r \<and>
   Result_unwrapDeep (Suc n) (Result_ok (VOption opt)) = Option_unwrapDeep n opt \<and>
   Option_unwrapDeep (Suc n) (Option_some (VResult r)) = Result_unwrapDeep n r \<and>
   Option_unwrapDeep (Suc n) (Option_some (VOption opt)) = Option_unwrapDeep n opt \<and>
   (\<not> is_container v \<longrightarrow> Result_unwrapDeep (Suc n) (Result_ok v) = Some (Inr v)) \<and>
   (\<not> is_container v \<longrightarrow> Option_unwrapDeep (Suc n) (Option_some v) = Some (Inr v))"
proof -
  have unwraps: "Result_unwrap (Result_ok w) = Inr w" "Option_unwrap (Option_some w) = Inr w"
    for w
    by (simp_all add: Result_unwrap_def Option_unwrap_def Result_ok_fields
        Option_some_fields Result_isOk_def Option_isSome_def)
  have example: "Result_unwrapDeep (3 + n)
     (Result_ok (VResult (Result_ok (VOption (Option_some (JNumber 5)))))) =
     Some (Inr (JNumber 5))"
    by (simp add: numeral_3_eq_3 unwraps)
  have steps:
    "Result_unwrapDeep (Suc n) (Result_ok (VResult r)) = Result_unwrapDeep n r"
    "Result_unwrapDeep (Suc n) (Result_ok (VOption opt)) = Option_unwrapDeep n opt"
    "Option_unwrapDeep (Suc n) (Option_some (VResult r)) = Result_unwrapDeep n r"
    "Option_unwrapDeep (Suc n) (Option_some (VOption opt)) = Option_unwrapDeep n opt"
    by (simp_all add: unwraps)
  have stops:
    "\<not> is_container v \<longrightarrow> Result_unwrapDeep (Suc n) (Result_ok v) = Some (Inr v)"
    "\<not> is_container v \<longrightarrow> Option_unwrapDeep (Suc n) (Option_some v) = Some (Inr v)"
    using Result_unwrapDeep_Suc_plain [OF unwraps(1)] Option_unwrapDeep_Suc_plain [OF unwraps(2)]
    by blast+
  from example steps stops show ?thesis by blast
qed

theorem unwrapDeep_nested_example_witness:
  "\<not> is_container (JNumber 5) \<and>
   Result_unwrapDeep 3 (Result_ok (VResult (Result_ok (VOption (Option_some (JNumber 5)))))) =
     Some (Inr (JNumber 5)) \<and>
   Result_unwrapDeep (Suc 0) (Result_ok (JNumber 5)) = Some (Inr (JNumber 5)) \<and>
   Option_unwrapDeep (Suc 0) (Option_some (JNumber 5)) = Some (Inr (JNumber 5))"
proof -
  have plain: "\<not> is_container (JNumber 5)" by (simp add: is_container_def)
  with unwrapDeep_nested_example [of 0 _ _ "JNumber 5"] show ?thesis by simp
qed

text \<open>
  C7. For every finitely nested chain of Result and Option containers (every value of
  the model is one), \<open>unwrapDeep\<close> terminates: it returns, with a value or an
  exception, exactly when as many calls are allowed as the chain has layers, whatever
  that number is. A value it returns is never a Result or an Option, and a call whose
  \<open>unwrap\<close> gives a payload that is not a container returns that payload without a
  further call.
\<close>

theorem unwrapDeep_terminates:
  "(\<exists>y. Result_unwrapDeep (layers_result r) r = Some y) \<and>
   (\<exists>y. Option_unwrapDeep (layers_option opt) opt = Some y) \<and>
   (Result_unwrapDeep n r \<noteq> None \<longleftrightarrow> layers_result r \<le> n) \<and>
   (Option_unwrapDeep n opt \<noteq> None \<longleftrightarrow> layers_option opt \<le> n) \<and>
   (Result_unwrapDeep n r = Some y \<longrightarrow> Result_unwrapDeep (n + k) r = Some y) \<and>
   (Option_unwrapDeep n opt = Some y \<longrightarrow> Option_unwrapDeep (n + k) opt = Some y) \<and>
   (Result_unwrapDeep n r = Some (Inr v) \<longrightarrow> \<not> is_container v) \<and>
   (Option_unwrapDeep n opt = Some (Inr v) \<longrightarrow> \<not> is_container v) \<and>
   (Result_unwrap r = Inr w \<and> \<not> is_container w \<longrightarrow>
      Result_unwrapDeep (Suc n) r = Some (Inr w)) \<and>
   (Option_unwrap opt = Inr w \<and> \<not> is_container w \<longrightarrow>
      Option_unwrapDeep (Suc n) opt = Some (Inr w))"
proof -
  have ex: "\<exists>y. Result_unwrapDeep (layers_result r) r = Some y"
    "\<exists>y. Option_unwrapDeep (layers_option opt) opt = Some y"
    using unwrapDeep_returns_iff [of "layers_result r" r opt]
      unwrapDeep_returns_iff [of "layers_option opt" r opt]
    by auto
  have stops:
    "Result_unwrap r = Inr w \<and> \<not> is_container w \<longrightarrow>
       Result_unwrapDeep (Suc n) r = Some (Inr w)"
    "Option_unwrap opt = Inr w \<and> \<not> is_container w \<longrightarrow>
       Option_unwrapDeep (Suc n) opt = Some (Inr w)"
    using Result_unwrapDeep_Suc_plain Option_unwrapDeep_Suc_plain by blast+
  from ex stops unwrapDeep_returns_iff [of n r opt] unwrapDeep_fuel_mono [of n r y k opt]
    unwrapDeep_returns_plain [of n r v opt]
  show ?thesis by blast
qed

theorem unwrapDeep_terminates_witness:
  "layers_result (Result_ok (JNumber 5)) \<le> 1 \<and>
   layers_option (Option_some (JNumber 5)) \<le> 1 \<and>
   Result_unwrapDeep 1 (Result_ok (JNumber 5)) = Some (Inr (JNumber 5)) \<and>
   Option_unwrapDeep 1 (Option_some (JNumber 5)) = Some (Inr (JNumber 5)) \<and>
   Result_unwrap (Result_ok (JNumber 5)) = Inr (JNumber 5) \<and>
   Option_unwrap (Option_some (JNumber 5)) = Inr (JNumber 5) \<and>
   \<not> is_container (JNumber 5) \<and>
   Result_unwrapDeep 1 (Result_ok (JNumber 5)) \<noteq> None \<and>
   Option_unwrapDeep 1 (Option_some (JNumber 5)) \<noteq> None \<and>
   Result_unwrapDeep (1 + 2) (Result_ok (JNumber 5)) = Some (Inr (JNumber 5)) \<and>
   Option_unwrapDeep (1 + 2) (Option_some (JNumber 5)) = Some (Inr (JNumber 5)) \<and>
   layers_result (Result_ok (VResult (Result_ok (VOption (Option_some (JNumber 5)))))) \<le> 3 \<and>
   Result_unwrapDeep 3 (Result_ok (VResult (Result_ok (VOption (Option_some (JNumber 5)))))) \<noteq>
     None"
proof -
  have hyps:
    "layers_result (Result_ok (JNumber 5)) \<le> 1"
    "layers_option (Option_some (JNumber 5)) \<le> 1"
    "Result_unwrapDeep 1 (Result_ok (JNumber 5)) = Some (Inr (JNumber 5))"
    "Option_unwrapDeep 1 (Option_some (JNumber 5)) = Some (Inr (JNumber 5))"
    "Result_unwrap (Result_ok (JNumber 5)) = Inr (JNumber 5)"
    "Option_unwrap (Option_some (JNumber 5)) = Inr (JNumber 5)"
    "\<not> is_container (JNumber 5)"
    "layers_result (Result_ok (VResult (Result_ok (VOption (Option_some (JNumber 5)))))) \<le> 3"
    by (simp_all add: Result_ok_fields Option_some_fields Result_unwrap_def Option_unwrap_def
        Result_isOk_def Option_isSome_def is_container_def)
  show ?thesis
    using hyps
      unwrapDeep_terminates [of "Result_ok (JNumber 5)" "Option_some (JNumber 5)" 1
        "Inr (JNumber 5)" 2 "JNumber 5" "JNumber 5"]
      unwrapDeep_terminates [of
        "Result_ok (VResult (Result_ok (VOption (Option_some (JNumber 5)))))" _ 3]
    by blast
qed

text \<open>
  C8. \<open>Option.from\<close> maps each of the two absence sentinels, \<open>null\<close> and
  \<open>undefined\<close>, to a None option, and every other input \<open>v\<close> to a Some option for
  which \<open>isSome()\<close> is true and \<open>unwrap()\<close> returns \<open>v\<close>.
\<close>

theorem Option_from_sentinels:
  "Option_from JUndefined = Option_none \<and> Option_from JNull = Option_none \<and>
   Option_isNone (Option_from JUndefined) \<and> Option_isNone (Option_from JNull) \<and>
   (v \<noteq> JUndefined \<and> v \<noteq> JNull \<longrightarrow>
      Option_from v = Option_some v \<and> Option_isSome (Option_from v) \<and>
      Option_unwrap (Option_from v) = Inr v)"
  by (simp add: Option_from_def Option_some_fields Option_none_fields Option_isSome_def
      Option_isNone_def Option_unwrap_def)

theorem Option_from_sentinels_witness:
  "JNumber 0 \<noteq> JUndefined \<and> JNumber 0 \<noteq> JNull \<and>
   Option_isSome (Option_from (JNumber 0)) \<and>
   Option_unwrap (Option_from (JNumber 0)) = Inr (JNumber 0)"
proof -
  have ne: "JNumber 0 \<noteq> JUndefined \<and> JNumber 0 \<noteq> JNull" by simp
  with Option_from_sentinels [of "JNumber 0"] show ?thesis by blast
qed

text \<open>
  C9. When the promise \<open>p\<close> fulfills with \<open>v\<close>, the promise of
  \<open>Result.fromPromise(p)\<close> fulfills with a Result for which \<open>isOk()\<close> is true and
  \<open>unwrap()\<close> returns \<open>v\<close>; when \<open>p\<close> rejects with \<open>e\<close>, it fulfills with a Result
  for which \<open>isErr()\<close> is true and \<open>unwrapErr()\<close> returns \<open>e\<close>. Neither \<open>v\<close> nor
  \<open>e\<close> is wrapped or changed.
\<close>

theorem Result_fromPromise_settles:
  "(\<exists>r. Result_fromPromise (Fulfilled v) = Fulfilled r \<and> Result_isOk r \<and>
        Result_unwrap r = Inr v) \<and>
   (\<exists>r. Result_fromPromise (Rejected e) = Fulfilled r \<and> Result_isErr r \<and>
        Result_unwrapErr r = Inr e)"
  by (simp add: Result_fromPromise_def Promise_then_def Promise_catch_def Result_ok_fields
      Result_err_fields Result_isOk_def Result_isErr_def Result_unwrap_def Result_unwrapErr_def)

text \<open>
  C10. \<open>Option.some(v)\<close> is a Some variant for every \<open>v\<close>, also when \<open>v\<close> is an
  absence sentinel: \<open>Option.some(undefined).isSome()\<close> is true and
  \<open>Option.some(undefined).unwrap()\<close> returns \<open>undefined\<close>, whereas
  \<open>Option.from(undefined)\<close> is None. So \<open>some(v)\<close> never collapses to None, and
  Some(undefined) is a state of its own.
\<close>

theorem Option_some_never_none:
  "Option_isSome (Option_some v) \<and> \<not> Option_isNone (Option_some v) \<and>
   Option_some v \<noteq> Option_none \<and>
   Option_unwrap (Option_some v) = Inr v \<and>
   Option_isSome (Option_some JUndefined) \<and>
   Option_unwrap (Option_some JUndefined) = Inr JUndefined \<and>
   Option_from JUndefined = Option_none \<and> Option_isNone (Option_from JUndefined) \<and>
   Option_some JUndefined \<noteq> Option_from JUndefined"
  by (simp add: Option_from_def Option_some_fields Option_none_fields Option_isSome_def
      Option_isNone_def Option_unwrap_def)

end
